theory Spec2Isabelle
  imports Main
begin

section \<open>Python values and exceptions\<close>

text \<open>
  The two source files are Python 2 (\<^verbatim>\<open>print\<close> statements, \<^verbatim>\<open>__metaclass__\<close>).
  Exceptions are values of \<open>exn\<close>; a call that may raise returns \<open>exn + 'a\<close>
  with \<open>Inl\<close> for the raised exception.
\<close>

datatype exn =
    KeyboardInterrupt
  | OutOfRangeError
  | TypeError
  | ZeroDivisionError
  | OtherError nat

text \<open>
  A float literal is kept as written, mantissa and decimal exponent:
  \<^verbatim>\<open>1e-3\<close> is \<open>PyFloat 1 (-3)\<close>. No float arithmetic is performed anywhere in
  the two files.
\<close>

datatype pyval = PyNone | PyInt int | PyFloat int int

text \<open>
  Python's \<^verbatim>\<open>a % b\<close> on ints, with \<^verbatim>\<open>b\<close> possibly \<^verbatim>\<open>None\<close>: \<^verbatim>\<open>None\<close> raises
  TypeError, zero raises ZeroDivisionError, otherwise the result takes the sign of
  the divisor, as \<open>mod\<close> on \<open>int\<close> does.
\<close>

fun py_mod :: "int \<Rightarrow> int option \<Rightarrow> exn + int" where
  "py_mod a None = Inl TypeError"
| "py_mod a (Some b) = (if b = 0 then Inl ZeroDivisionError else Inr (a mod b))"

text \<open>
  \<^verbatim>\<open>os.path.join(a, b)\<close> of the standard library (posixpath), for two components.
\<close>

definition path_join :: "string \<Rightarrow> string \<Rightarrow> string" where
  "path_join a b =
     (if b \<noteq> [] \<and> hd b = CHR ''/'' then b
      else if a = [] \<or> last a = CHR ''/'' then a @ b
      else a @ ''/'' @ b)"

section \<open>convnet/config.py\<close>

text \<open>
  \<^verbatim>\<open>Config.__init__\<close> assigns attributes one after the other on a fresh object;
  the object's attribute dictionary is a map from attribute names to values.
\<close>

definition Config_init :: "string \<rightharpoonup> pyval" where
  "Config_init =
     ((((Map.empty
        (''learning_rate'' \<mapsto> PyFloat 1 (-3)))
        (''display_step'' \<mapsto> PyInt 50))
        (''n_threads'' \<mapsto> PyInt 2))
        (''regularization'' \<mapsto> PyFloat 1 (-3)))
        (''n_epochs'' \<mapsto> PyNone)"

text \<open>The names bound in the body of \<^verbatim>\<open>class Config\<close>.\<close>

definition Config_methods :: "string list" where
  "Config_methods = [''__init__'']"

section \<open>tflib/model.py: the class\<close>

datatype method_kind = Abstract | Concrete

text \<open>
  The methods of \<^verbatim>\<open>class BaseModel\<close> in source order; a method is \<open>Abstract\<close>
  when it carries \<^verbatim>\<open>@abc.abstractmethod\<close>.
\<close>

definition BaseModel_methods :: "(string \<times> method_kind) list" where
  "BaseModel_methods =
     [(''__init__'', Concrete),
      (''_setup_prediction'', Abstract),
      (''_setup_loss'', Abstract),
      (''_setup_optimizer'', Abstract),
      (''_tofetch'', Abstract),
      (''_train_step'', Concrete),
      (''_test_step'', Concrete),
      (''_summary_step'', Abstract),
      (''load'', Concrete),
      (''save'', Concrete),
      (''train'', Concrete)]"

definition abstractmethods :: "(string \<times> method_kind) list \<Rightarrow> string list" where
  "abstractmethods ms = map fst (filter (\<lambda>p. snd p = Abstract) ms)"

definition concretemethods :: "(string \<times> method_kind) list \<Rightarrow> string list" where
  "concretemethods ms = map fst (filter (\<lambda>p. snd p = Concrete) ms)"

text \<open>
  \<^verbatim>\<open>__metaclass__ = abc.ABCMeta\<close>: a direct subclass that overrides the methods
  \<open>overridden\<close> with concrete ones can be instantiated when no abstract method is
  left; otherwise the constructor call raises TypeError.
\<close>

definition instantiate :: "string list \<Rightarrow> exn + unit" where
  "instantiate overridden =
     (if list_all (\<lambda>m. m \<in> set overridden) (abstractmethods BaseModel_methods)
      then Inr () else Inl TypeError)"

text \<open>
  The object state set up by \<^verbatim>\<open>BaseModel.__init__\<close>. Tensors and variables are
  known by their names; \<open>saver\<close> is \<open>None\<close> while the attribute is not yet
  assigned. The graph's collection of global variables is threaded through as a
  list of names.
\<close>

record variable =
  var_name :: string
  initial_value :: int
  trainable :: bool

record saver_t =
  var_list :: "string list"
  max_to_keep :: nat

record 'i BaseModel =
  inputs :: 'i
  checkpoint_dir :: string
  is_training :: bool
  layers :: "string \<rightharpoonup> string"
  summaries :: "string list"
  eval_summaries :: "string list"
  global_step :: variable
  saver :: "saver_t option"

text \<open>
  \<^verbatim>\<open>__init__(self, inputs, checkpoint_dir, is_training=False, reuse=False)\<close>.
  \<open>setup_prediction\<close> is the subclass's \<^verbatim>\<open>_setup_prediction(self)\<close>, which sees
  the object built so far and the graph's global variables.
\<close>

definition BaseModel_init ::
  "('i BaseModel \<times> string list \<Rightarrow> 'i BaseModel \<times> string list) \<Rightarrow> string list \<Rightarrow>
   'i \<Rightarrow> string \<Rightarrow> bool \<Rightarrow> bool \<Rightarrow> 'i BaseModel \<times> string list" where
  "BaseModel_init setup_prediction graph inp dir training reuse =
     (let self = \<lparr> inputs = inp, checkpoint_dir = dir, is_training = training,
                    layers = Map.empty, summaries = [], eval_summaries = [],
                    global_step = \<lparr> var_name = ''global_step'', initial_value = 0,
                                    trainable = False \<rparr>,
                    saver = None \<rparr>;
          (self', graph') = setup_prediction (self, graph @ [''global_step''])
      in (self'\<lparr> saver := Some \<lparr> var_list = graph', max_to_keep = 10 * 10000 \<rparr> \<rparr>, graph'))"

section \<open>tflib/model.py: load, save and train\<close>

text \<open>
  \<^verbatim>\<open>train\<close> drives the framework through calls; the model records the calls in
  order as a trace of \<open>action\<close>s. What the framework, the file system and the
  subclass hooks answer is not decided by this repository, so it is an input: an
  environment gives, for every call that the loop depends on, its outcome.
\<close>

datatype msg =
    MsgLoaded int "string option"
  | MsgInitializing
  | MsgStartingCoordinator
  | MsgStartingOptimization
  | MsgSummary string
  | MsgSavingCheckpoint int
  | MsgInterrupted int
  | MsgCompleted int
  | MsgShuttingDown
  | MsgWaiting
  | MsgDone

text \<open>
  The calls, in the order in which \<^verbatim>\<open>train\<close>, \<^verbatim>\<open>load\<close> and \<^verbatim>\<open>save\<close> make them:
  \<^verbatim>\<open>print\<close>; \<^verbatim>\<open>tf.Variable(learning_rate, ...)\<close>; the hooks \<^verbatim>\<open>_setup_loss\<close> and
  \<^verbatim>\<open>_setup_optimizer\<close>; \<^verbatim>\<open>tf.summary.merge\<close>; entering and leaving
  \<^verbatim>\<open>with tf.Session()\<close>; \<^verbatim>\<open>tf.summary.FileWriter(dir, graph)\<close>; the two variable
  initializers; \<^verbatim>\<open>tf.train.latest_checkpoint(dir)\<close>; \<^verbatim>\<open>saver.restore(sess, path)\<close>;
  \<^verbatim>\<open>tf.train.Coordinator()\<close>; \<^verbatim>\<open>tf.train.start_queue_runners\<close>;
  \<^verbatim>\<open>self._train_step\<close>; \<^verbatim>\<open>np.set_printoptions\<close>; the hook \<^verbatim>\<open>_summary_step\<close>;
  \<^verbatim>\<open>summary_writer.add_summary(..., global_step=step)\<close>; \<^verbatim>\<open>os.makedirs(dir)\<close>;
  \<^verbatim>\<open>saver.save(sess, path, ...)\<close>; \<^verbatim>\<open>coord.request_stop()\<close>;
  \<^verbatim>\<open>summary_writer.close()\<close>; \<^verbatim>\<open>coord.join(threads)\<close>. Exceptions arise only where
  the environment says so: in \<^verbatim>\<open>saver.restore\<close>, \<^verbatim>\<open>_train_step\<close>, \<^verbatim>\<open>_summary_step\<close>,
  \<^verbatim>\<open>saver.save\<close> and the two modulus tests.
\<close>

datatype action =
    Print msg
  | NewVariable string pyval
  | SetupLoss
  | SetupOptimizer
  | MergeSummaries "string list"
  | SessionEnter
  | SessionExit
  | FileWriter string
  | InitLocalVariables
  | InitGlobalVariables
  | LatestCheckpoint string
  | SaverRestore "string option"
  | NewCoordinator
  | StartQueueRunners
  | TrainStep
  | SetPrintoptions
  | SummaryStep
  | AddSummary int
  | MakeDirs string
  | SaverSave string
  | RequestStop
  | WriterClose
  | JoinThreads "nat list"

text \<open>\<^verbatim>\<open>str(step)\<close> for an int.\<close>

definition digit_char :: "nat \<Rightarrow> char" where
  "digit_char d = char_of (48 + d)"

function str_nat :: "nat \<Rightarrow> string" where
  "str_nat n = (if n < 10 then [digit_char n] else str_nat (n div 10) @ [digit_char (n mod 10)])"
  by pat_completeness auto
termination
  by (relation "measure id") auto

definition str_int :: "int \<Rightarrow> string" where
  "str_int i = (if i < 0 then ''-'' @ str_nat (nat (- i)) else str_nat (nat i))"

text \<open>
  \<^verbatim>\<open>load(self, sess, step=None)\<close>. The environment answers
  \<^verbatim>\<open>tf.train.latest_checkpoint\<close>, says whether \<^verbatim>\<open>saver.restore\<close> raises, and
  gives the restored value of the global step.
\<close>

record load_env =
  latest_checkpoint :: "string \<Rightarrow> string option"
  restore_exn :: "exn option"
  restored_step :: int

definition load :: "'i BaseModel \<Rightarrow> load_env \<Rightarrow> int option \<Rightarrow> action list \<times> exn option" where
  "load self le step =
     (let (a, checkpoint_path) =
            (case step of
               None \<Rightarrow> ([LatestCheckpoint (checkpoint_dir self)],
                         latest_checkpoint le (checkpoint_dir self))
             | Some s \<Rightarrow> ([], Some (path_join (checkpoint_dir self) (''model-'' @ str_int s))))
      in case restore_exn le of
           Some x \<Rightarrow> (a @ [SaverRestore checkpoint_path], Some x)
         | None \<Rightarrow> (a @ [SaverRestore checkpoint_path,
                          Print (MsgLoaded (restored_step le) checkpoint_path)], None))"

text \<open>
  \<^verbatim>\<open>save(self, sess)\<close>. The environment answers \<^verbatim>\<open>os.path.exists\<close> and says
  whether \<^verbatim>\<open>saver.save\<close> raises.
\<close>

record save_env =
  dir_exists :: bool
  save_exn :: "exn option"

definition save :: "'i BaseModel \<Rightarrow> save_env \<Rightarrow> action list \<times> exn option" where
  "save self se =
     (let checkpoint_path = path_join (checkpoint_dir self) ''model''
      in ((if \<not> dir_exists se then [MakeDirs (checkpoint_dir self)] else [])
            @ [SaverSave checkpoint_path],
          save_exn se))"

text \<open>
  One pass of the \<^verbatim>\<open>while\<close> loop meets: \<^verbatim>\<open>coord.should_stop()\<close>;
  \<^verbatim>\<open>self._train_step(...)\<close>, which raises or returns the data whose \<^verbatim>\<open>'step'\<close>
  entry is read (a Python int); the subclass's \<^verbatim>\<open>_summary_step\<close>, which raises or
  returns the message printed; and \<^verbatim>\<open>self.save\<close>.
\<close>

record iter_env =
  should_stop :: bool
  train_step_result :: "exn + int"
  summary_step_result :: "exn + string"
  periodic_save :: save_env

text \<open>\<^verbatim>\<open>step > 0 and step % summary_step == 0\<close>, evaluated left to right.\<close>

definition summary_guard :: "int \<Rightarrow> int option \<Rightarrow> exn + bool" where
  "summary_guard step summary_step =
     (if step > 0
      then (case py_mod step summary_step of Inl x \<Rightarrow> Inl x | Inr r \<Rightarrow> Inr (r = 0))
      else Inr False)"

text \<open>
  \<^verbatim>\<open>checkpoint_step is not None and (step > 0) and step % checkpoint_step == 0\<close>.
\<close>

definition checkpoint_guard :: "int \<Rightarrow> int option \<Rightarrow> exn + bool" where
  "checkpoint_guard step checkpoint_step =
     (if checkpoint_step \<noteq> None \<and> step > 0
      then (case py_mod step checkpoint_step of Inl x \<Rightarrow> Inl x | Inr r \<Rightarrow> Inr (r = 0))
      else Inr False)"

definition summary_block :: "int option \<Rightarrow> iter_env \<Rightarrow> int \<Rightarrow> action list \<times> exn option" where
  "summary_block summary_step e step =
     (case summary_guard step summary_step of
        Inl x \<Rightarrow> ([], Some x)
      | Inr False \<Rightarrow> ([], None)
      | Inr True \<Rightarrow>
          (case summary_step_result e of
             Inl x \<Rightarrow> ([SetPrintoptions, SummaryStep], Some x)
           | Inr m \<Rightarrow> ([SetPrintoptions, SummaryStep, Print (MsgSummary m), AddSummary step],
                       None)))"

definition checkpoint_block ::
  "'i BaseModel \<Rightarrow> int option \<Rightarrow> iter_env \<Rightarrow> int \<Rightarrow> action list \<times> exn option" where
  "checkpoint_block self checkpoint_step e step =
     (case checkpoint_guard step checkpoint_step of
        Inl x \<Rightarrow> ([], Some x)
      | Inr False \<Rightarrow> ([], None)
      | Inr True \<Rightarrow>
          (case save self (periodic_save e) of
             (a, r) \<Rightarrow> (Print (MsgSavingCheckpoint step) # a, r)))"

text \<open>
  The body of the loop. It returns the calls made, the value of the local
  \<^verbatim>\<open>step\<close> afterwards, and the exception that left the body, if any.
\<close>

definition loop_body ::
  "'i BaseModel \<Rightarrow> int option \<Rightarrow> int option \<Rightarrow> iter_env \<Rightarrow> int \<Rightarrow>
   action list \<times> int \<times> exn option" where
  "loop_body self summary_step checkpoint_step e step0 =
     (case train_step_result e of
        Inl x \<Rightarrow> ([TrainStep], step0, Some x)
      | Inr step \<Rightarrow>
          (case summary_block summary_step e step of
             (a1, Some x) \<Rightarrow> (TrainStep # a1, step, Some x)
           | (a1, None) \<Rightarrow>
               (case checkpoint_block self checkpoint_step e step of
                  (a2, r) \<Rightarrow> (TrainStep # a1 @ a2, step, r))))"

text \<open>
  \<^verbatim>\<open>while not coord.should_stop(): ...\<close> from pass \<open>i\<close> on. The loop may run for
  ever, so it takes fuel: \<open>None\<close> says that the loop has not ended within
  \<open>fuel\<close> passes. \<open>Some (a, step, None)\<close> is the loop ending because
  \<^verbatim>\<open>should_stop()\<close> answered true, \<open>Some (a, step, Some x)\<close> is exception \<open>x\<close>
  leaving the loop.
\<close>

fun train_loop ::
  "nat \<Rightarrow> 'i BaseModel \<Rightarrow> int option \<Rightarrow> int option \<Rightarrow> (nat \<Rightarrow> iter_env) \<Rightarrow> nat \<Rightarrow> int \<Rightarrow>
   (action list \<times> int \<times> exn option) option" where
  "train_loop 0 self summary_step checkpoint_step env i step = None"
| "train_loop (Suc fuel) self summary_step checkpoint_step env i step =
     (if should_stop (env i) then Some ([], step, None)
      else
        (case loop_body self summary_step checkpoint_step (env i) step of
           (a, step', Some x) \<Rightarrow> Some (a, step', Some x)
         | (a, step', None) \<Rightarrow>
             (case train_loop fuel self summary_step checkpoint_step env (Suc i) step' of
                None \<Rightarrow> None
              | Some (a', step'', r) \<Rightarrow> Some (a @ a', step'', r))))"

text \<open>
  The answers for one call of \<^verbatim>\<open>train\<close>: those for \<^verbatim>\<open>load\<close>, the threads that
  \<^verbatim>\<open>tf.train.start_queue_runners\<close> returns, those for each pass of the loop, and
  those for the \<^verbatim>\<open>save\<close> of an \<^verbatim>\<open>except\<close> clause.
\<close>

record train_env =
  load_answers :: load_env
  queue_threads :: "nat list"
  iterations :: "nat \<Rightarrow> iter_env"
  final_save :: save_env

text \<open>The \<^verbatim>\<open>finally\<close> clause, and the statements after the \<^verbatim>\<open>try\<close>.\<close>

definition finally_clause :: "action list" where
  "finally_clause = [Print MsgShuttingDown, RequestStop, WriterClose]"

definition after_try :: "nat list \<Rightarrow> action list" where
  "after_try threads = [Print MsgWaiting, JoinThreads threads, Print MsgDone]"

text \<open>
  The \<^verbatim>\<open>except\<close> clauses, in source order, applied to the exception \<open>x\<close> that left
  the loop with the local \<^verbatim>\<open>step\<close>. An exception with no clause is raised again;
  so is one raised by \<^verbatim>\<open>self.save\<close> inside a clause.
\<close>

fun except_clauses ::
  "'i BaseModel \<Rightarrow> save_env \<Rightarrow> int \<Rightarrow> exn \<Rightarrow> action list \<times> exn option" where
  "except_clauses self se step KeyboardInterrupt =
     (case save self se of (a, r) \<Rightarrow> (Print (MsgInterrupted step) # a, r))"
| "except_clauses self se step OutOfRangeError =
     (case save self se of (a, r) \<Rightarrow> (Print (MsgCompleted step) # a, r))"
| "except_clauses self se step x = ([], Some x)"

text \<open>
  \<^verbatim>\<open>try: ... except ...: ... finally: ...\<close> followed by the join, given how the
  loop ended.
\<close>

definition try_statement ::
  "'i BaseModel \<Rightarrow> save_env \<Rightarrow> nat list \<Rightarrow> action list \<times> int \<times> exn option \<Rightarrow>
   action list \<times> (exn + unit)" where
  "try_statement self se threads l =
     (case l of (a, step, r) \<Rightarrow>
        (case (case r of None \<Rightarrow> ([], None) | Some x \<Rightarrow> except_clauses self se step x) of
           (h, None) \<Rightarrow> (a @ h @ finally_clause @ after_try threads @ [SessionExit], Inr ())
         | (h, Some y) \<Rightarrow> (a @ h @ finally_clause @ [SessionExit], Inl y)))"

text \<open>
  \<^verbatim>\<open>train(self, learning_rate, resume=False, summary_step=100, checkpoint_step=100)\<close>.
  \<open>None\<close>: the loop has not ended within \<open>fuel\<close> passes. Otherwise the calls
  made, and \<open>Inr ()\<close> when \<^verbatim>\<open>train\<close> returns, \<open>Inl x\<close> when \<open>x\<close> propagates out
  of it.
\<close>

definition train_prologue :: "'i BaseModel \<Rightarrow> pyval \<Rightarrow> action list" where
  "train_prologue self learning_rate =
     [NewVariable ''learning_rate'' learning_rate, SetupLoss, SetupOptimizer,
      MergeSummaries (summaries self @ [''learning_rate'']),
      SessionEnter, FileWriter (checkpoint_dir self),
      Print MsgInitializing, InitLocalVariables, InitGlobalVariables]"

definition start_threads :: "action list" where
  "start_threads =
     [Print MsgStartingCoordinator, NewCoordinator, StartQueueRunners,
      Print MsgStartingOptimization]"

definition train ::
  "nat \<Rightarrow> 'i BaseModel \<Rightarrow> pyval \<Rightarrow> bool \<Rightarrow> int option \<Rightarrow> int option \<Rightarrow> train_env \<Rightarrow>
   (action list \<times> (exn + unit)) option" where
  "train fuel self learning_rate resume summary_step checkpoint_step env =
     (case (if resume then load self (load_answers env) None else ([], None)) of
        (la, Some x) \<Rightarrow> Some (train_prologue self learning_rate @ la @ [SessionExit], Inl x)
      | (la, None) \<Rightarrow>
          (case train_loop fuel self summary_step checkpoint_step (iterations env) 0 0 of
             None \<Rightarrow> None
           | Some l \<Rightarrow>
               (case try_statement self (final_save env) (queue_threads env) l of
                  (a, r) \<Rightarrow>
                    Some (train_prologue self learning_rate @ la @ start_threads @ a, r))))"

section \<open>Example inputs\<close>

text \<open>
  A model object over a directory \<^verbatim>\<open>ckpt\<close> whose \<^verbatim>\<open>_setup_prediction\<close> adds
  nothing, and environments in which the first \<open>n\<close> passes return the steps
  \<open>1, \<dots>, n\<close> and every later pass is \<open>final\<close>.
\<close>

definition example_model :: "unit BaseModel" where
  "example_model = fst (BaseModel_init (\<lambda>x. x) [] () ''ckpt'' True False)"

definition example_iter :: "bool \<Rightarrow> exn + int \<Rightarrow> iter_env" where
  "example_iter stop r =
     \<lparr> should_stop = stop, train_step_result = r, summary_step_result = Inr ''loss'',
       periodic_save = \<lparr> dir_exists = True, save_exn = None \<rparr> \<rparr>"

definition example_env :: "nat \<Rightarrow> iter_env \<Rightarrow> train_env" where
  "example_env n final =
     \<lparr> load_answers = \<lparr> latest_checkpoint = (\<lambda>d. Some (path_join d ''model-7'')),
                        restore_exn = None, restored_step = 7 \<rparr>,
       queue_threads = [1, 2],
       iterations = (\<lambda>i. if i < n then example_iter False (Inr (int i + 1)) else final),
       final_save = \<lparr> dir_exists = False, save_exn = None \<rparr> \<rparr>"

section \<open>Properties of the class structure\<close>

lemma abstractmethods_BaseModel:
  "abstractmethods BaseModel_methods =
     [''_setup_prediction'', ''_setup_loss'', ''_setup_optimizer'', ''_tofetch'',
      ''_summary_step'']"
  by (simp add: abstractmethods_def BaseModel_methods_def)

lemma concretemethods_BaseModel:
  "concretemethods BaseModel_methods =
     [''__init__'', ''_train_step'', ''_test_step'', ''load'', ''save'', ''train'']"
  by (simp add: concretemethods_def BaseModel_methods_def)

section \<open>One pass of the loop\<close>



lemma summary_guard_step0 [simp]: "summary_guard 0 ss = Inr False"
  by (simp add: summary_guard_def)

lemma checkpoint_guard_step0 [simp]: "checkpoint_guard 0 cs = Inr False"
  by (simp add: checkpoint_guard_def)

lemma checkpoint_guard_None [simp]: "checkpoint_guard s None = Inr False"
  by (simp add: checkpoint_guard_def)

lemma summary_guard_None: "s > 0 \<Longrightarrow> summary_guard s None = Inl TypeError"
  by (simp add: summary_guard_def)

lemma save_actions:
  "fst (save self se) =
     (if dir_exists se then [] else [MakeDirs (checkpoint_dir self)])
       @ [SaverSave (path_join (checkpoint_dir self) ''model'')]"
  by (simp add: save_def)

lemma save_result: "snd (save self se) = save_exn se"
  by (simp add: save_def)

lemma summary_block_cases:
  "summary_block ss e s =
     (if summary_guard s ss = Inr True
      then (case summary_step_result e of
              Inl x \<Rightarrow> ([SetPrintoptions, SummaryStep], Some x)
            | Inr m \<Rightarrow> ([SetPrintoptions, SummaryStep, Print (MsgSummary m), AddSummary s], None))
      else ([], case summary_guard s ss of Inl x \<Rightarrow> Some x | Inr b \<Rightarrow> None))"
  by (auto simp add: summary_block_def split: sum.splits bool.splits)

lemma checkpoint_block_cases:
  "checkpoint_block self cs e s =
     (if checkpoint_guard s cs = Inr True
      then (Print (MsgSavingCheckpoint s) # fst (save self (periodic_save e)),
            save_exn (periodic_save e))
      else ([], case checkpoint_guard s cs of Inl x \<Rightarrow> Some x | Inr b \<Rightarrow> None))"
  by (auto simp add: checkpoint_block_def save_def split: sum.splits bool.splits)



lemma SaverSave_summary_block:
  "SaverSave p \<notin> set (fst (summary_block ss e s))"
  by (simp add: summary_block_cases split: sum.splits)

lemma SaverSave_checkpoint_block:
  "SaverSave p \<in> set (fst (checkpoint_block self cs e s)) \<longleftrightarrow>
     p = path_join (checkpoint_dir self) ''model'' \<and> checkpoint_guard s cs = Inr True"
  by (auto simp add: checkpoint_block_cases save_actions)



lemma loop_body_raise:
  "train_step_result e = Inl x \<Longrightarrow> loop_body self ss cs e st = ([TrainStep], st, Some x)"
  by (simp add: loop_body_def)

lemma loop_body_return:
  "train_step_result e = Inr s \<Longrightarrow>
   loop_body self ss cs e st =
     (if snd (summary_block ss e s) = None
      then (TrainStep # fst (summary_block ss e s) @ fst (checkpoint_block self cs e s), s,
            snd (checkpoint_block self cs e s))
      else (TrainStep # fst (summary_block ss e s), s, snd (summary_block ss e s)))"
  by (auto simp add: loop_body_def split: prod.splits option.splits)



lemma SaverSave_loop_body:
  "SaverSave p \<in> set (fst (loop_body self ss cs e st)) \<longleftrightarrow>
     (\<exists>s. train_step_result e = Inr s \<and> snd (summary_block ss e s) = None
        \<and> checkpoint_guard s cs = Inr True)
       \<and> p = path_join (checkpoint_dir self) ''model''"
  by (cases "train_step_result e")
     (auto simp add: loop_body_raise loop_body_return SaverSave_summary_block
        SaverSave_checkpoint_block)

section \<open>The loop\<close>

text \<open>Every call in the trace of the loop is made by one of its passes.\<close>

lemma train_loop_set:
  "train_loop fuel self ss cs env i st = Some (a, st', r) \<Longrightarrow> x \<in> set a \<Longrightarrow>
   \<exists>j st0. i \<le> j \<and> \<not> should_stop (env j) \<and> x \<in> set (fst (loop_body self ss cs (env j) st0))"
proof (induction fuel arbitrary: i st a st' r)
  case 0
  then show ?case by simp
next
  case (Suc fuel)
  show ?case
  proof (cases "should_stop (env i)")
    case True
    with Suc.prems show ?thesis by simp
  next
    case False
    obtain b sb rb where B: "loop_body self ss cs (env i) st = (b, sb, rb)"
      by (cases "loop_body self ss cs (env i) st") auto
    have inb: "x \<in> set b \<Longrightarrow> ?thesis"
      using B False by (metis fst_conv order_refl)
    show ?thesis
    proof (cases rb)
      case (Some y)
      with Suc.prems False B inb show ?thesis by simp
    next
      case None
      with Suc.prems(1) False B obtain a' where
        R: "train_loop fuel self ss cs env (Suc i) sb = Some (a', st', r)" and A: "a = b @ a'"
        by (auto split: option.splits)
      from Suc.prems(2) A have "x \<in> set b \<or> x \<in> set a'" by simp
      then show ?thesis
      proof
        assume "x \<in> set b"
        then show ?thesis by (rule inb)
      next
        assume "x \<in> set a'"
        from Suc.IH [OF R this] obtain j st0 where
          "Suc i \<le> j" "\<not> should_stop (env j)" "x \<in> set (fst (loop_body self ss cs (env j) st0))"
          by blast
        then show ?thesis by (metis Suc_leD)
      qed
    qed
  qed
qed



text \<open>More fuel does not change the outcome of a loop that has ended.\<close>

lemma train_loop_fuel:
  "train_loop fuel self ss cs env i st = Some l \<Longrightarrow>
   train_loop (fuel + n) self ss cs env i st = Some l"
proof (induction fuel arbitrary: i st l)
  case 0
  then show ?case by simp
next
  case (Suc fuel)
  then show ?case
    by (auto split: if_splits prod.splits option.splits)
qed




section \<open>The whole of train\<close>

lemma load_None:
  "load self le None =
     ([LatestCheckpoint (checkpoint_dir self),
       SaverRestore (latest_checkpoint le (checkpoint_dir self))]
        @ (if restore_exn le = None
           then [Print (MsgLoaded (restored_step le) (latest_checkpoint le (checkpoint_dir self)))]
           else []),
      restore_exn le)"
  by (cases "restore_exn le") (simp_all add: load_def)


lemma try_statement_KeyboardInterrupt:
  "try_statement self se threads (a, step, Some KeyboardInterrupt) =
     (a @ Print (MsgInterrupted step) # fst (save self se) @ finally_clause
        @ (if save_exn se = None then after_try threads else []) @ [SessionExit],
      case save_exn se of None \<Rightarrow> Inr () | Some y \<Rightarrow> Inl y)"
  by (cases "save_exn se") (simp_all add: try_statement_def save_def)

lemma try_statement_OutOfRangeError:
  "try_statement self se threads (a, step, Some OutOfRangeError) =
     (a @ Print (MsgCompleted step) # fst (save self se) @ finally_clause
        @ (if save_exn se = None then after_try threads else []) @ [SessionExit],
      case save_exn se of None \<Rightarrow> Inr () | Some y \<Rightarrow> Inl y)"
  by (cases "save_exn se") (simp_all add: try_statement_def save_def)

lemma try_statement_other:
  "x \<noteq> KeyboardInterrupt \<Longrightarrow> x \<noteq> OutOfRangeError \<Longrightarrow>
   try_statement self se threads (a, step, Some x) =
     (a @ finally_clause @ [SessionExit], Inl x)"
  by (cases x) (simp_all add: try_statement_def)

lemma train_after_loop:
  assumes "train_loop fuel self ss cs (iterations env) 0 0 = Some l"
    and "resume \<longrightarrow> restore_exn (load_answers env) = None"
  shows "train fuel self lr resume ss cs env =
     Some (train_prologue self lr
             @ (if resume then fst (load self (load_answers env) None) else [])
             @ start_threads
             @ fst (try_statement self (final_save env) (queue_threads env) l),
           snd (try_statement self (final_save env) (queue_threads env) l))"
  using assms by (simp add: train_def load_None split: prod.splits)



section \<open>Error handling of the training loop\<close>

text \<open>
  Claim C1. \<^verbatim>\<open>train\<close> handles two exceptions leaving the loop: on
  KeyboardInterrupt and on OutOfRangeError it prints the step, calls \<^verbatim>\<open>save\<close>
  and goes on to the \<^verbatim>\<open>finally\<close> clause without another pass of the loop; it
  returns when that \<^verbatim>\<open>save\<close> returns. Any other exception leaving the loop
  propagates out of \<^verbatim>\<open>train\<close> after the \<^verbatim>\<open>finally\<close> clause, with no call of
  \<^verbatim>\<open>save\<close>.
\<close>

theorem train_handles_two_exceptions:
  assumes "train_loop fuel self ss cs (iterations env) 0 0 = Some (a, step, Some x)"
    and "resume \<longrightarrow> restore_exn (load_answers env) = None"
  shows "train fuel self lr resume ss cs env =
     Some (train_prologue self lr
             @ (if resume then fst (load self (load_answers env) None) else [])
             @ start_threads @ a
             @ (if x = KeyboardInterrupt \<or> x = OutOfRangeError
                then Print (if x = KeyboardInterrupt then MsgInterrupted step
                            else MsgCompleted step)
                       # fst (save self (final_save env)) @ finally_clause
                       @ (if save_exn (final_save env) = None
                          then after_try (queue_threads env) else [])
                else finally_clause)
             @ [SessionExit],
           if x = KeyboardInterrupt \<or> x = OutOfRangeError
           then (case save_exn (final_save env) of None \<Rightarrow> Inr () | Some y \<Rightarrow> Inl y)
           else Inl x)"
proof -
  consider "x = KeyboardInterrupt" | "x = OutOfRangeError"
    | "x \<noteq> KeyboardInterrupt" "x \<noteq> OutOfRangeError" by blast
  then show ?thesis
  proof cases
    case 1
    then show ?thesis
      using train_after_loop [OF assms, of lr] by (simp add: try_statement_KeyboardInterrupt)
  next
    case 2
    then show ?thesis
      using train_after_loop [OF assms, of lr] by (simp add: try_statement_OutOfRangeError)
  next
    case 3
    then show ?thesis
      using train_after_loop [OF assms, of lr] by (simp add: try_statement_other)
  qed
qed

lemma example_loop_raises:
  "train_loop 5 example_model (Some 2) None
     (iterations (example_env 1 (example_iter False (Inl x)))) 0 0
   = Some ([TrainStep, TrainStep], 1, Some x)"
  by (simp add: eval_nat_numeral example_env_def example_iter_def loop_body_def
        summary_block_def checkpoint_block_def summary_guard_def)

theorem train_handles_two_exceptions_witness:
  "train 5 example_model (PyFloat 1 (-3)) False (Some 2) None
     (example_env 1 (example_iter False (Inl KeyboardInterrupt)))
   = Some ([NewVariable ''learning_rate'' (PyFloat 1 (-3)), SetupLoss, SetupOptimizer,
            MergeSummaries [''learning_rate''], SessionEnter, FileWriter ''ckpt'',
            Print MsgInitializing, InitLocalVariables, InitGlobalVariables,
            Print MsgStartingCoordinator, NewCoordinator, StartQueueRunners,
            Print MsgStartingOptimization, TrainStep, TrainStep,
            Print (MsgInterrupted 1), MakeDirs ''ckpt'', SaverSave ''ckpt/model'',
            Print MsgShuttingDown, RequestStop, WriterClose,
            Print MsgWaiting, JoinThreads [1, 2], Print MsgDone, SessionExit], Inr ())
   \<and> train 5 example_model (PyFloat 1 (-3)) False (Some 2) None
     (example_env 1 (example_iter False (Inl OutOfRangeError)))
   = Some ([NewVariable ''learning_rate'' (PyFloat 1 (-3)), SetupLoss, SetupOptimizer,
            MergeSummaries [''learning_rate''], SessionEnter, FileWriter ''ckpt'',
            Print MsgInitializing, InitLocalVariables, InitGlobalVariables,
            Print MsgStartingCoordinator, NewCoordinator, StartQueueRunners,
            Print MsgStartingOptimization, TrainStep, TrainStep,
            Print (MsgCompleted 1), MakeDirs ''ckpt'', SaverSave ''ckpt/model'',
            Print MsgShuttingDown, RequestStop, WriterClose,
            Print MsgWaiting, JoinThreads [1, 2], Print MsgDone, SessionExit], Inr ())
   \<and> train 5 example_model (PyFloat 1 (-3)) False (Some 2) None
     (example_env 1 (example_iter False (Inl (OtherError 7))))
   = Some ([NewVariable ''learning_rate'' (PyFloat 1 (-3)), SetupLoss, SetupOptimizer,
            MergeSummaries [''learning_rate''], SessionEnter, FileWriter ''ckpt'',
            Print MsgInitializing, InitLocalVariables, InitGlobalVariables,
            Print MsgStartingCoordinator, NewCoordinator, StartQueueRunners,
            Print MsgStartingOptimization, TrainStep, TrainStep,
            Print MsgShuttingDown, RequestStop, WriterClose, SessionExit],
           Inl (OtherError 7))"
proof -
  have R: "False \<longrightarrow> restore_exn (load_answers e) = None" for e by simp
  have M: "checkpoint_dir example_model = ''ckpt''" "summaries example_model = []"
    by (simp_all add: example_model_def BaseModel_init_def)
  note S = train_prologue_def start_threads_def finally_clause_def after_try_def save_def
    path_join_def example_env_def M
  show ?thesis
    using train_handles_two_exceptions [OF example_loop_raises [of KeyboardInterrupt] R, where lr = "PyFloat 1 (-3)"]
      train_handles_two_exceptions [OF example_loop_raises [of OutOfRangeError] R, where lr = "PyFloat 1 (-3)"]
      train_handles_two_exceptions [OF example_loop_raises [of "OtherError 7"] R, where lr = "PyFloat 1 (-3)"]
    by (simp add: S)
qed



section \<open>Shutdown of the data threads\<close>



section \<open>The constructor\<close>

text \<open>
  Claim C9. The \<^verbatim>\<open>reuse\<close> argument of \<^verbatim>\<open>BaseModel.__init__\<close> has no effect: two
  constructions that differ only in \<^verbatim>\<open>reuse\<close> give the same object (all of
  \<^verbatim>\<open>inputs\<close>, \<^verbatim>\<open>checkpoint_dir\<close>, \<^verbatim>\<open>is_training\<close>, \<^verbatim>\<open>layers\<close>, \<^verbatim>\<open>summaries\<close>,
  \<^verbatim>\<open>eval_summaries\<close>, \<^verbatim>\<open>global_step\<close>, \<^verbatim>\<open>saver\<close>) and the same graph variables.
\<close>

theorem reuse_has_no_effect:
  "BaseModel_init setup_prediction graph inp dir training reuse1 =
   BaseModel_init setup_prediction graph inp dir training reuse2"
  by (simp add: BaseModel_init_def)

section \<open>The hyperparameter holder\<close>

lemma set5_rev: "{a, b, c, d, e} = {e, d, c, b, a}"
  by blast

text \<open>
  Claim C5 as stated fails: the constructor of \<^verbatim>\<open>Config\<close> sets a fifth attribute,
  \<^verbatim>\<open>display_step = 50\<close>, so the attributes set are not exactly learning rate,
  epoch count, thread count and regularization weight.
\<close>

theorem Config_four_fields_counterexample:
  "Config_init ''display_step'' = Some (PyInt 50) \<and>
   dom Config_init \<noteq> {''learning_rate'', ''n_epochs'', ''n_threads'', ''regularization''}"
proof
  show "Config_init ''display_step'' = Some (PyInt 50)" by (simp add: Config_init_def)
next
  show "dom Config_init \<noteq> {''learning_rate'', ''n_epochs'', ''n_threads'', ''regularization''}"
  proof
    assume "dom Config_init = {''learning_rate'', ''n_epochs'', ''n_threads'', ''regularization''}"
    moreover have "''display_step'' \<in> dom Config_init" by (simp add: Config_init_def)
    ultimately have
      "''display_step'' \<in> {''learning_rate'', ''n_epochs'', ''n_threads'', ''regularization''}"
      by (rule subst)
    then show False by simp
  qed
qed

text \<open>
  Claim C5, amended. The constructor of \<^verbatim>\<open>Config\<close> sets exactly five attributes:
  \<^verbatim>\<open>learning_rate = 1e-3\<close>, \<^verbatim>\<open>display_step = 50\<close>, \<^verbatim>\<open>n_threads = 2\<close>,
  \<^verbatim>\<open>regularization = 1e-3\<close> and \<^verbatim>\<open>n_epochs = None\<close>; the class defines no method
  other than \<^verbatim>\<open>__init__\<close>.
\<close>

theorem Config_five_fields:
  "dom Config_init =
     {''learning_rate'', ''display_step'', ''n_threads'', ''regularization'', ''n_epochs''}
   \<and> Config_init ''learning_rate'' = Some (PyFloat 1 (-3))
   \<and> Config_init ''display_step'' = Some (PyInt 50)
   \<and> Config_init ''n_threads'' = Some (PyInt 2)
   \<and> Config_init ''regularization'' = Some (PyFloat 1 (-3))
   \<and> Config_init ''n_epochs'' = Some PyNone
   \<and> Config_methods = [''__init__'']"
proof -
  have "dom Config_init =
     {''n_epochs'', ''regularization'', ''n_threads'', ''display_step'', ''learning_rate''}"
    unfolding Config_init_def by simp
  also have "\<dots> =
     {''learning_rate'', ''display_step'', ''n_threads'', ''regularization'', ''n_epochs''}"
    by (rule set5_rev)
  finally have D: "dom Config_init =
     {''learning_rate'', ''display_step'', ''n_threads'', ''regularization'', ''n_epochs''}" .
  have 1: "Config_init ''learning_rate'' = Some (PyFloat 1 (-3))"
    by (simp add: Config_init_def)
  have 2: "Config_init ''display_step'' = Some (PyInt 50)"
    by (simp add: Config_init_def)
  have 3: "Config_init ''n_threads'' = Some (PyInt 2)"
    by (simp add: Config_init_def)
  have 4: "Config_init ''regularization'' = Some (PyFloat 1 (-3))"
    by (simp add: Config_init_def)
  have 5: "Config_init ''n_epochs'' = Some PyNone"
    by (simp add: Config_init_def)
  have 6: "Config_methods = [''__init__'']"
    by (simp add: Config_methods_def)
  from D 1 2 3 4 5 6 show ?thesis by (intro conjI)
qed

section \<open>The abstract extension points\<close>

text \<open>
  Claim C3 as stated fails: the abstract methods are five, not four. A subclass
  that overrides only \<^verbatim>\<open>_setup_prediction\<close>, \<^verbatim>\<open>_setup_loss\<close>,
  \<^verbatim>\<open>_setup_optimizer\<close> and \<^verbatim>\<open>_tofetch\<close> cannot be instantiated.
\<close>

theorem four_abstract_methods_counterexample:
  "length (abstractmethods BaseModel_methods) = 5 \<and>
   instantiate [''_setup_prediction'', ''_setup_loss'', ''_setup_optimizer'', ''_tofetch'']
     = Inl TypeError"
  by (simp add: instantiate_def abstractmethods_BaseModel)

text \<open>
  Claim C3, amended. \<^verbatim>\<open>BaseModel\<close> declares exactly five abstract methods,
  \<^verbatim>\<open>_setup_prediction\<close>, \<^verbatim>\<open>_setup_loss\<close>, \<^verbatim>\<open>_setup_optimizer\<close>, \<^verbatim>\<open>_tofetch\<close> and
  \<^verbatim>\<open>_summary_step\<close>; \<^verbatim>\<open>load\<close>, \<^verbatim>\<open>save\<close> and \<^verbatim>\<open>train\<close> are concrete; a subclass
  can be instantiated exactly when it overrides all five.
\<close>

theorem five_abstract_methods:
  "abstractmethods BaseModel_methods =
     [''_setup_prediction'', ''_setup_loss'', ''_setup_optimizer'', ''_tofetch'',
      ''_summary_step'']
   \<and> ''load'' \<in> set (concretemethods BaseModel_methods)
   \<and> ''save'' \<in> set (concretemethods BaseModel_methods)
   \<and> ''train'' \<in> set (concretemethods BaseModel_methods)
   \<and> (instantiate overridden = Inr () \<longleftrightarrow>
        ''_setup_prediction'' \<in> set overridden \<and> ''_setup_loss'' \<in> set overridden \<and>
        ''_setup_optimizer'' \<in> set overridden \<and> ''_tofetch'' \<in> set overridden \<and>
        ''_summary_step'' \<in> set overridden)"
  by (simp add: instantiate_def abstractmethods_BaseModel concretemethods_BaseModel)

section \<open>Periodic summaries and checkpoints\<close>








lemma MakeDirs_loop_body_None:
  "MakeDirs d \<notin> set (fst (loop_body self ss None e st))"
  by (cases "train_step_result e")
     (auto simp add: loop_body_raise loop_body_return summary_block_cases
        checkpoint_block_cases split: if_splits sum.splits)

lemma SaverSave_loop_body_None:
  "SaverSave p \<notin> set (fst (loop_body self ss None e st))"
  by (simp add: SaverSave_loop_body)

lemma loop_body_step0:
  "train_step_result e = Inr 0 \<Longrightarrow> loop_body self ss cs e st = ([TrainStep], 0, None)"
  by (simp add: loop_body_return summary_block_cases checkpoint_block_cases)

lemma loop_body_summary_step_None:
  "train_step_result e = Inr s \<Longrightarrow> s > 0 \<Longrightarrow>
   loop_body self None cs e st = ([TrainStep], s, Some TypeError)"
  by (simp add: loop_body_return summary_block_cases summary_guard_None)

text \<open>
  Claim C10. A pass whose step is 0 adds no summary entry and saves no
  checkpoint, whatever \<^verbatim>\<open>summary_step\<close> and \<^verbatim>\<open>checkpoint_step\<close> are. With
  \<^verbatim>\<open>checkpoint_step=None\<close> the loop never calls \<^verbatim>\<open>save\<close>. With
  \<^verbatim>\<open>summary_step=None\<close> a pass whose step is positive raises TypeError at the
  modulus test, before any summary or checkpoint; when this is the first pass,
  TypeError propagates out of \<^verbatim>\<open>train\<close>.
\<close>

theorem step0_and_None_arguments:
  "(train_step_result e = Inr 0 \<longrightarrow> loop_body self ss cs e st = ([TrainStep], 0, None))
   \<and> (train_loop fuel self ss None env i st = Some (a, st', r) \<longrightarrow>
        (\<forall>p. SaverSave p \<notin> set a) \<and> (\<forall>d. MakeDirs d \<notin> set a))
   \<and> (train_step_result e = Inr s \<and> s > 0 \<longrightarrow>
        loop_body self None cs e st = ([TrainStep], s, Some TypeError))
   \<and> (\<not> should_stop (iterations tenv 0) \<and> train_step_result (iterations tenv 0) = Inr s
        \<and> s > 0 \<and> (resume \<longrightarrow> restore_exn (load_answers tenv) = None) \<longrightarrow>
        train (Suc fuel) self lr resume None cs tenv =
          Some (train_prologue self lr
                  @ (if resume then fst (load self (load_answers tenv) None) else [])
                  @ start_threads @ [TrainStep] @ finally_clause @ [SessionExit],
                Inl TypeError))"
proof (intro conjI impI allI)
  assume "train_step_result e = Inr 0"
  then show "loop_body self ss cs e st = ([TrainStep], 0, None)" by (rule loop_body_step0)
next
  fix p assume "train_loop fuel self ss None env i st = Some (a, st', r)"
  then show "SaverSave p \<notin> set a"
    using train_loop_set [of fuel self ss None env i st a st' r "SaverSave p"]
    by (auto simp add: SaverSave_loop_body_None)
next
  fix d assume "train_loop fuel self ss None env i st = Some (a, st', r)"
  then show "MakeDirs d \<notin> set a"
    using train_loop_set [of fuel self ss None env i st a st' r "MakeDirs d"]
    by (auto simp add: MakeDirs_loop_body_None)
next
  assume "train_step_result e = Inr s \<and> s > 0"
  then show "loop_body self None cs e st = ([TrainStep], s, Some TypeError)"
    by (simp add: loop_body_summary_step_None)
next
  assume A: "\<not> should_stop (iterations tenv 0) \<and> train_step_result (iterations tenv 0) = Inr s
        \<and> s > 0 \<and> (resume \<longrightarrow> restore_exn (load_answers tenv) = None)"
  then have "loop_body self None cs (iterations tenv 0) 0 = ([TrainStep], s, Some TypeError)"
    by (simp add: loop_body_summary_step_None)
  with A have L: "train_loop (Suc fuel) self None cs (iterations tenv) 0 0
                  = Some ([TrainStep], s, Some TypeError)"
    by simp
  from A have R: "resume \<longrightarrow> restore_exn (load_answers tenv) = None" by simp
  show "train (Suc fuel) self lr resume None cs tenv =
          Some (train_prologue self lr
                  @ (if resume then fst (load self (load_answers tenv) None) else [])
                  @ start_threads @ [TrainStep] @ finally_clause @ [SessionExit],
                Inl TypeError)"
    using train_after_loop [OF L R, of lr] by (simp add: try_statement_other)
qed

section \<open>Runs on the example inputs\<close>

lemma example_model_fields:
  "checkpoint_dir example_model = ''ckpt''" "summaries example_model = []"
  by (simp_all add: example_model_def BaseModel_init_def)

lemmas example_defs =
  example_env_def example_iter_def example_model_fields loop_body_def summary_block_def
  checkpoint_block_def summary_guard_def checkpoint_guard_def save_def path_join_def



lemma example_loop_no_checkpoint:
  "train_loop 5 example_model (Some 4) None
     (iterations (example_env 3 (example_iter True (Inr 0)))) 0 0
   = Some ([TrainStep, TrainStep, TrainStep], 3, None)"
  by (simp add: eval_nat_numeral example_defs)



theorem step0_and_None_arguments_witness:
  "train_step_result (example_iter False (Inr 0)) = Inr 0
   \<and> loop_body example_model (Some 1) (Some 1) (example_iter False (Inr 0)) 7
       = ([TrainStep], 0, None)
   \<and> SaverSave ''ckpt/model'' \<notin> set [TrainStep, TrainStep, TrainStep]
   \<and> loop_body example_model None (Some 3) (example_iter False (Inr 3)) 0
       = ([TrainStep], 3, Some TypeError)
   \<and> train (Suc 0) example_model (PyFloat 1 (-3)) False None (Some 100)
        (example_env 1 (example_iter True (Inr 0)))
       = Some ([NewVariable ''learning_rate'' (PyFloat 1 (-3)), SetupLoss, SetupOptimizer,
                MergeSummaries [''learning_rate''], SessionEnter, FileWriter ''ckpt'',
                Print MsgInitializing, InitLocalVariables, InitGlobalVariables,
                Print MsgStartingCoordinator, NewCoordinator, StartQueueRunners,
                Print MsgStartingOptimization, TrainStep,
                Print MsgShuttingDown, RequestStop, WriterClose, SessionExit],
               Inl TypeError)"
proof -
  have H0: "train_step_result (example_iter False (Inr 0)) = Inr 0"
    by (simp add: example_iter_def)
  have H3: "train_step_result (example_iter False (Inr 3)) = Inr 3 \<and> (0::int) < 3"
    by (simp add: example_iter_def)
  have HT: "\<not> should_stop (iterations (example_env 1 (example_iter True (Inr 0))) 0)
        \<and> train_step_result (iterations (example_env 1 (example_iter True (Inr 0))) 0) = Inr 1
        \<and> (0::int) < 1
        \<and> (False \<longrightarrow> restore_exn (load_answers (example_env 1 (example_iter True (Inr 0)))) = None)"
    by (simp add: example_env_def example_iter_def)
  note T = step0_and_None_arguments
  show ?thesis
    using T [where self = example_model and ss = "Some 1" and cs = "Some 1"
               and e = "example_iter False (Inr 0)" and st = 7, THEN conjunct1, rule_format, OF H0]
          T [where self = example_model and ss = "Some 4" and fuel = 5
               and env = "iterations (example_env 3 (example_iter True (Inr 0)))"
               and i = 0 and st = 0, THEN conjunct2, THEN conjunct1, rule_format,
             OF example_loop_no_checkpoint]
          T [where self = example_model and cs = "Some 3"
               and e = "example_iter False (Inr 3)" and s = 3 and st = 0,
             THEN conjunct2, THEN conjunct2, THEN conjunct1, rule_format, OF H3]
          T [where self = example_model and cs = "Some 100" and lr = "PyFloat 1 (-3)"
               and resume = False and fuel = 0 and s = 1
               and tenv = "example_env 1 (example_iter True (Inr 0))",
             THEN conjunct2, THEN conjunct2, THEN conjunct2, rule_format, OF HT]
          H0
    by (simp add: train_prologue_def start_threads_def finally_clause_def example_model_fields)
qed

section \<open>The checkpoint directory\<close>













section \<open>How long the loop runs\<close>





end
